theory Spec2Isabelle
  imports Main "HOL-Library.Sublist"
begin

section \<open>Workload ingestion of cluster-capacity: \<open>app/options/options.go\<close>\<close>

text \<open>
  The file embeds \<open>ParseAPISpec\<close> and \<open>downloadOrRead\<close>. Go's library calls
  (\<open>http.Get\<close>, \<open>filepath.Abs\<close>, \<open>os.Open\<close>, the YAML-or-JSON decoder, the
  conversion to the internal pod and \<open>ValidatePodCreate\<close>) are not part of the
  repository; they are fields of an environment record that every function takes.
\<close>

subsection \<open>Data model\<close>

text \<open>
  A Go slice is a header pointing at a backing array. Copying a pod copies the header,
  not the array, so the \<open>Containers\<close> field is an address and the arrays live in a
  store. The scalar fields of a pod are plain strings and are copied with it.
\<close>

type_synonym addr = nat

record v1_Container =
  Image :: string
  TerminationMessagePolicy :: string

type_synonym memory = "addr \<Rightarrow> v1_Container list"

record v1_ObjectMeta =
  Name :: string
  Namespace :: string

record v1_PodSpec =
  SchedulerName :: string
  DNSPolicy :: string
  RestartPolicy :: string
  Containers :: addr

record v1_Pod =
  ObjectMeta :: v1_ObjectMeta
  Spec :: v1_PodSpec

text \<open>
  A decoded \<open>v1.PodList\<close>: the \<open>Items\<close> array and the backing arrays that the
  container slices of its items point to.
\<close>

record v1_PodList =
  Items :: "v1_Pod list"
  backing :: memory

record ClusterCapacityOptions =
  Kubeconfig :: string
  DefaultSchedulerConfigFile :: string
  MaxLimit :: int
  Verbose :: bool
  PodSpecFile :: string
  PodListSpecFile :: string
  OutputFormat :: string

text \<open>\<open>Pod\<close> is a pointer in the source; \<open>None\<close> is the nil pointer.\<close>

record ClusterCapacityConfig =
  Pod :: "v1_PodList option"
  Options :: ClusterCapacityOptions

text \<open>
  An \<open>io.Reader\<close> as \<open>downloadOrRead\<close> returns it: the bytes behind it and whether
  \<open>Close\<close> has already been called on it.
\<close>

record Reader =
  content :: string
  bodyClosed :: bool

record http_Response =
  Status :: string
  StatusCode :: int
  Body :: string

text \<open>A \<open>field.Error\<close> of the validation package, with its type already rendered.\<close>

record field_Error =
  Type :: string
  Field' :: string

text \<open>
  The errors of the two functions, one constructor for each \<open>return\<close> of an error:
  \<^item> \<open>GetError e\<close>: the error of \<open>http.Get\<close>, returned as it is;
  \<^item> \<open>UnableToReadURL u st c\<close>:
    \<open>"unable to read URL %q, server reported %v, status code=%v"\<close> of the URL, the
    status and the status code;
  \<^item> \<open>FailedToOpen e\<close>: \<open>"failed to open config file: %v"\<close>;
  \<^item> \<open>FailedToDecode e\<close>: \<open>"failed to decode config file: %v"\<close> (single pod);
  \<^item> \<open>DailedToDecode e\<close>: \<open>"dailed to decode config file: %v"\<close> (pod list, spelled
    so in the source);
  \<^item> \<open>UnableToConvert e\<close>: \<open>"unable to convert to internal version: %#v"\<close>;
  \<^item> \<open>InvalidPod msg\<close>: \<open>"invalid pod: %#v"\<close> of the joined violation strings.
\<close>

datatype error =
    GetError string
  | UnableToReadURL string string int
  | FailedToOpen string
  | FailedToDecode string
  | DailedToDecode string
  | UnableToConvert string
  | InvalidPod string

text \<open>The input and output operations a call performs, in order.\<close>

datatype event =
    HttpGet string
  | BodyClose string
  | FileOpen string

text \<open>
  The library functions the source calls. \<open>'ip\<close> is the internal pod type
  (\<open>api.Pod\<close>). Conversion and validation read the pod through the store.
\<close>

record 'ip env =
  http_Get :: "string \<Rightarrow> string + http_Response"
  filepath_Abs :: "string \<Rightarrow> string"
  os_Open :: "string \<Rightarrow> string + string"
  Decode_Pod :: "Reader \<Rightarrow> string + v1_Pod \<times> memory"
  Decode_PodList :: "Reader \<Rightarrow> string + v1_PodList"
  Convert_v1_Pod_To_core_Pod :: "v1_Pod \<Rightarrow> memory \<Rightarrow> string + 'ip"
  ValidatePodCreate :: "'ip \<Rightarrow> field_Error list"

subsection \<open>Constants of the libraries\<close>

text \<open>
  \<open>http.StatusOK\<close> and three constants of \<open>k8s.io/api/core/v1\<close>, with the values
  they have there.
\<close>

definition StatusOK :: int where
  "StatusOK = 200"

definition DNSClusterFirst :: string where
  "DNSClusterFirst = ''ClusterFirst''"

definition RestartPolicyAlways :: string where
  "RestartPolicyAlways = ''Always''"

definition TerminationMessageFallbackToLogsOnError :: string where
  "TerminationMessageFallbackToLogsOnError = ''FallbackToLogsOnError''"

text \<open>\<open>strings.Join\<close>.\<close>

fun Join :: "string list \<Rightarrow> string \<Rightarrow> string" where
  "Join [] sep = []"
| "Join [x] sep = x"
| "Join (x # y # xs) sep = x @ sep @ Join (y # xs) sep"

subsection \<open>\<open>downloadOrRead\<close>\<close>

text \<open>
  The deferred \<open>response.Body.Close()\<close> is registered once \<open>http.Get\<close> has
  succeeded and runs when \<open>downloadOrRead\<close> returns, on both returns that follow it.
  The reader returned on success is the response body, after that close.
\<close>

definition downloadOrRead :: "'ip env \<Rightarrow> string \<Rightarrow> (error + Reader) \<times> event list" where
  "downloadOrRead E urlOrFile =
     (if prefix ''http://'' urlOrFile \<or> prefix ''https://'' urlOrFile then
        (case http_Get E urlOrFile of
           Inl err \<Rightarrow> (Inl (GetError err), [HttpGet urlOrFile])
         | Inr response \<Rightarrow>
             if StatusCode response \<noteq> StatusOK then
               (Inl (UnableToReadURL urlOrFile (Status response) (StatusCode response)),
                [HttpGet urlOrFile, BodyClose urlOrFile])
             else
               (Inr \<lparr>content = Body response, bodyClosed = True\<rparr>,
                [HttpGet urlOrFile, BodyClose urlOrFile]))
      else
        (let filename = filepath_Abs E urlOrFile in
         case os_Open E filename of
           Inl err \<Rightarrow> (Inl (FailedToOpen err), [FileOpen filename])
         | Inr bytes \<Rightarrow> (Inr \<lparr>content = bytes, bodyClosed = False\<rparr>, [FileOpen filename])))"

subsection \<open>\<open>ParseAPISpec\<close>\<close>

text \<open>
  Lines 84 to 108: resolve and decode the configured source into the local
  \<open>versionedPodList\<close>.
\<close>

definition readPodList :: "'ip env \<Rightarrow> ClusterCapacityOptions \<Rightarrow> (error + v1_PodList) \<times> event list" where
  "readPodList E opts =
     (if length (PodSpecFile opts) > 0 then
        (case downloadOrRead E (PodSpecFile opts) of
           (Inl err, evs) \<Rightarrow> (Inl err, evs)
         | (Inr spec, evs) \<Rightarrow>
             (case Decode_Pod E spec of
                Inl err \<Rightarrow> (Inl (FailedToDecode err), evs)
              | Inr (versionedPod, m) \<Rightarrow> (Inr \<lparr>Items = [versionedPod], backing = m\<rparr>, evs)))
      else
        (case downloadOrRead E (PodListSpecFile opts) of
           (Inl err, evs) \<Rightarrow> (Inl err, evs)
         | (Inr spec, evs) \<Rightarrow>
             (case Decode_PodList E spec of
                Inl err \<Rightarrow> (Inl (DailedToDecode err), evs)
              | Inr versionedPodList \<Rightarrow> (Inr versionedPodList, evs))))"

text \<open>
  Lines 131 to 133, one round of the loop over the container indices: the write goes
  through the slice into the backing array.
\<close>

definition setTerminationMessagePolicy :: "addr \<Rightarrow> nat \<Rightarrow> memory \<Rightarrow> memory" where
  "setTerminationMessagePolicy a i m =
     (if TerminationMessagePolicy (m a ! i) = [] then
        m(a := (m a)[i := (m a ! i)\<lparr>TerminationMessagePolicy :=
                                      TerminationMessageFallbackToLogsOnError\<rparr>])
      else m)"

text \<open>
  Lines 112 to 134. \<open>versionedPod\<close> is the loop variable of \<open>range\<close>, a copy of the
  item: the four scalar defaults are written to the copy. The container loop runs over
  the indices of the slice, whose length \<open>range\<close> reads once.
\<close>

definition injectDefaults :: "string \<Rightarrow> v1_Pod \<Rightarrow> memory \<Rightarrow> v1_Pod \<times> memory" where
  "injectDefaults schedulerName item m =
     (let vp1 = (if Namespace (ObjectMeta item) = []
                 then item\<lparr>ObjectMeta := (ObjectMeta item)\<lparr>Namespace := ''default''\<rparr>\<rparr>
                 else item);
          vp2 = (if SchedulerName (Spec vp1) = []
                 then vp1\<lparr>Spec := (Spec vp1)\<lparr>SchedulerName := schedulerName\<rparr>\<rparr>
                 else vp1);
          vp3 = (if DNSPolicy (Spec vp2) = []
                 then vp2\<lparr>Spec := (Spec vp2)\<lparr>DNSPolicy := DNSClusterFirst\<rparr>\<rparr>
                 else vp2);
          vp4 = (if RestartPolicy (Spec vp3) = []
                 then vp3\<lparr>Spec := (Spec vp3)\<lparr>RestartPolicy := RestartPolicyAlways\<rparr>\<rparr>
                 else vp3);
          a = Containers (Spec vp4)
      in (vp4, fold (setTerminationMessagePolicy a) [0..<length (m a)] m))"

text \<open>\<open>fmt.Sprintf("%v: %v", err.Type, err.Field)\<close>.\<close>

definition errStr :: "field_Error \<Rightarrow> string" where
  "errStr err = Type err @ '': '' @ Field' err"

text \<open>
  Lines 111 to 150, the loop over \<open>versionedPodList.Items\<close>. Both \<open>return\<close>s inside
  the loop body leave the function at once; the items array itself is never written.
  The result is the store after the last round.
\<close>

fun processItems :: "'ip env \<Rightarrow> string \<Rightarrow> v1_Pod list \<Rightarrow> memory \<Rightarrow> error + memory" where
  "processItems E schedulerName [] m = Inr m"
| "processItems E schedulerName (item # items) m =
     (case injectDefaults schedulerName item m of
        (versionedPod, m') \<Rightarrow>
          (case Convert_v1_Pod_To_core_Pod E versionedPod m' of
             Inl err \<Rightarrow> Inl (UnableToConvert err)
           | Inr internalPod \<Rightarrow>
               (let errs = ValidatePodCreate E internalPod in
                if length errs > 0 then Inl (InvalidPod (Join (map errStr errs) '', ''))
                else processItems E schedulerName items m')))"

text \<open>
  The whole function: the error it returns (\<open>None\<close> is \<open>nil\<close>), the configuration
  after the call and the operations performed. \<open>s.Pod\<close> is assigned on line 152 only.
\<close>

definition ParseAPISpec ::
  "'ip env \<Rightarrow> string \<Rightarrow> ClusterCapacityConfig \<Rightarrow> (error option \<times> ClusterCapacityConfig) \<times> event list" where
  "ParseAPISpec E schedulerName s =
     (case readPodList E (Options s) of
        (Inl err, evs) \<Rightarrow> ((Some err, s), evs)
      | (Inr versionedPodList, evs) \<Rightarrow>
          (case processItems E schedulerName (Items versionedPodList) (backing versionedPodList) of
             Inl err \<Rightarrow> ((Some err, s), evs)
           | Inr m \<Rightarrow> ((None, s\<lparr>Pod := Some (versionedPodList\<lparr>backing := m\<rparr>)\<rparr>), evs)))"

subsection \<open>Error messages\<close>

text \<open>
  The text of an error, as \<open>fmt.Errorf\<close> builds it from the format strings of the
  source. \<open>%q\<close> of a string, and \<open>%#v\<close> of a string, is \<open>strconv.Quote\<close>: the
  string between double quotes, with a backslash before a double quote and before a
  backslash, the printable ASCII characters as they are, and the control characters
  under their escapes (\<open>\n\<close>, \<open>\t\<close>, ... and \<open>\xhh\<close> for the others). A string
  is a list of bytes here; a byte from \<open>0x80\<close> up is copied, which is what Go does
  with the bytes of a printable character in UTF-8 (Go escapes the other ones, and no
  statement below is about a string outside ASCII).
\<close>

definition quoteChar :: "char \<Rightarrow> string" where
  "quoteChar c =
     (let n = (of_char c :: nat) in
      if c = CHR 0x22 \<or> c = CHR 0x5C then [CHR 0x5C, c]
      else if 0x20 \<le> n \<and> n < 0x7F then [c]
      else if n = 7 then [CHR 0x5C, CHR ''a'']
      else if n = 8 then [CHR 0x5C, CHR ''b'']
      else if n = 12 then [CHR 0x5C, CHR ''f'']
      else if n = 10 then [CHR 0x5C, CHR ''n'']
      else if n = 13 then [CHR 0x5C, CHR ''r'']
      else if n = 9 then [CHR 0x5C, CHR ''t'']
      else if n = 11 then [CHR 0x5C, CHR ''v'']
      else if n < 0x20 \<or> n = 0x7F
      then [CHR 0x5C, CHR ''x'',
            ''0123456789abcdef'' ! (n div 16), ''0123456789abcdef'' ! (n mod 16)]
      else [c])"

definition Quote :: "string \<Rightarrow> string" where
  "Quote s = CHR 0x22 # concat (map quoteChar s) @ [CHR 0x22]"

text \<open>\<open>%v\<close> of an integer: its decimal digits, after a minus sign when negative.\<close>

fun digitsOf :: "nat \<Rightarrow> string" where
  "digitsOf n =
     (if n < 10 then [''0123456789'' ! n]
      else digitsOf (n div 10) @ [''0123456789'' ! (n mod 10)])"

definition Itoa :: "int \<Rightarrow> string" where
  "Itoa i = (if i < 0 then CHR ''-'' # digitsOf (nat (- i)) else digitsOf (nat i))"

text \<open>
  The messages of lines 93, 106, 139, 147, 166 and 173. The argument of the decode, open
  and get errors is the text of the underlying error (\<open>%v\<close>); that of
  \<open>UnableToConvert\<close> is the \<open>%#v\<close> rendering of the underlying error.
\<close>

fun errorMessage :: "error \<Rightarrow> string" where
  "errorMessage (GetError e) = e"
| "errorMessage (UnableToReadURL u st c) =
     ''unable to read URL '' @ Quote u @ '', server reported '' @ st @
     '', status code='' @ Itoa c"
| "errorMessage (FailedToOpen e) = ''failed to open config file: '' @ e"
| "errorMessage (FailedToDecode e) = ''failed to decode config file: '' @ e"
| "errorMessage (DailedToDecode e) = ''dailed to decode config file: '' @ e"
| "errorMessage (UnableToConvert e) = ''unable to convert to internal version: '' @ e"
| "errorMessage (InvalidPod msg) = ''invalid pod: '' @ Quote msg"

subsection \<open>Notions used in the statements\<close>

text \<open>What the container loop does to one container.\<close>

definition defaultContainer :: "v1_Container \<Rightarrow> v1_Container" where
  "defaultContainer c =
     (if TerminationMessagePolicy c = []
      then c\<lparr>TerminationMessagePolicy := TerminationMessageFallbackToLogsOnError\<rparr>
      else c)"


text \<open>The backing arrays that the container slices of a list of pods point to.\<close>

definition containerArrays :: "v1_Pod list \<Rightarrow> addr set" where
  "containerArrays items = set (map (\<lambda>p. Containers (Spec p)) items)"


subsection \<open>A concrete environment\<close>

text \<open>
  A small file system and network, a decoder that knows four documents, a conversion
  that resolves the container slice, and a validation with two rules (a pod needs a
  name and at least one container). The statements below are run on it.
\<close>

definition mkPod :: "string \<Rightarrow> addr \<Rightarrow> v1_Pod" where
  "mkPod n a =
     \<lparr>ObjectMeta = \<lparr>Name = n, Namespace = []\<rparr>,
      Spec = \<lparr>SchedulerName = [], DNSPolicy = [], RestartPolicy = [], Containers = a\<rparr>\<rparr>"

definition demoMemory :: memory where
  "demoMemory a =
     (if a = 10 then [\<lparr>Image = ''busybox'', TerminationMessagePolicy = []\<rparr>]
      else if a = 11 then [\<lparr>Image = ''nginx'', TerminationMessagePolicy = ''File''\<rparr>]
      else if a = 12 then [\<lparr>Image = ''redis'', TerminationMessagePolicy = []\<rparr>,
                          \<lparr>Image = ''proxy'', TerminationMessagePolicy = ''File''\<rparr>]
      else [])"

definition demoValidate :: "v1_Pod \<times> v1_Container list \<Rightarrow> field_Error list" where
  "demoValidate ip =
     (if Name (ObjectMeta (fst ip)) = []
      then [\<lparr>Type = ''Required value'', Field' = ''metadata.name''\<rparr>] else []) @
     (if snd ip = []
      then [\<lparr>Type = ''Required value'', Field' = ''spec.containers''\<rparr>] else [])"

definition demoEnv :: "(v1_Pod \<times> v1_Container list) env" where
  "demoEnv =
     \<lparr>http_Get = (\<lambda>u.
        if u = ''http://example.test/pod.yaml''
        then Inr \<lparr>Status = ''200 OK'', StatusCode = 200, Body = ''pod''\<rparr>
        else if u = ''https://example.test/missing.yaml''
        then Inr \<lparr>Status = ''404 Not Found'', StatusCode = 404, Body = []\<rparr>
        else Inl ''no such host''),
      filepath_Abs = (\<lambda>f.
        if prefix ''/'' f then f else if f = [] then ''/work'' else ''/work/'' @ f),
      os_Open = (\<lambda>f.
        if f = ''/work/pod.yaml'' then Inr ''pod''
        else if f = ''/work/list.yaml'' then Inr ''list''
        else if f = ''/work/bad.yaml'' then Inr ''bad''
        else if f = ''/work/two.yaml'' then Inr ''two''
        else if f = ''/work'' then Inr ''directory''
        else Inl ''no such file or directory''),
      Decode_Pod = (\<lambda>r.
        if bodyClosed r then Inl ''http: read on closed response body''
        else if content r = ''pod'' then Inr (mkPod ''a'' 10, demoMemory)
        else Inl ''cannot unmarshal''),
      Decode_PodList = (\<lambda>r.
        if bodyClosed r then Inl ''http: read on closed response body''
        else if content r = ''list''
        then Inr \<lparr>Items = [mkPod ''a'' 10, mkPod ''b'' 11, mkPod ''c'' 12], backing = demoMemory\<rparr>
        else if content r = ''bad''
        then Inr \<lparr>Items = [mkPod ''a'' 10, mkPod [] 11, mkPod ''c'' 12], backing = demoMemory\<rparr>
        else if content r = ''two''
        then Inr \<lparr>Items = [mkPod [] 11, mkPod ''e'' 13], backing = demoMemory\<rparr>
        else if content r = ''directory'' then Inl ''read /work: is a directory''
        else Inl ''cannot unmarshal''),
      Convert_v1_Pod_To_core_Pod = (\<lambda>p m. Inr (p, m (Containers (Spec p)))),
      ValidatePodCreate = demoValidate\<rparr>"

definition demoOptions :: "string \<Rightarrow> string \<Rightarrow> ClusterCapacityOptions" where
  "demoOptions podspec podspeclist =
     \<lparr>Kubeconfig = [], DefaultSchedulerConfigFile = [], MaxLimit = 0, Verbose = False,
      PodSpecFile = podspec, PodListSpecFile = podspeclist, OutputFormat = []\<rparr>"

definition demoConfig :: "string \<Rightarrow> string \<Rightarrow> ClusterCapacityConfig" where
  "demoConfig podspec podspeclist = \<lparr>Pod = None, Options = demoOptions podspec podspeclist\<rparr>"

text \<open>The same environment on a file system where no file can be opened.\<close>

definition lockedEnv :: "(v1_Pod \<times> v1_Container list) env" where
  "lockedEnv = demoEnv\<lparr>os_Open := (\<lambda>f. Inl ''permission denied'')\<rparr>"



section \<open>Properties\<close>

subsection \<open>The container loop and the defaulting step\<close>

lemma setTerminationMessagePolicy_eq:
  "i < length (m a) \<Longrightarrow>
   setTerminationMessagePolicy a i m = m(a := (m a)[i := defaultContainer (m a ! i)])"
  by (auto simp: setTerminationMessagePolicy_def defaultContainer_def fun_eq_iff)

lemma fold_setTerminationMessagePolicy:
  "n \<le> length (m a) \<Longrightarrow>
   fold (setTerminationMessagePolicy a) [0..<n] m =
   m(a := map defaultContainer (take n (m a)) @ drop n (m a))"
proof (induction n)
  case 0
  then show ?case by simp
next
  case (Suc n)
  let ?xs = "m a"
  let ?m' = "m(a := map defaultContainer (take n ?xs) @ drop n ?xs)"
  from Suc.prems have n: "n < length ?xs" by simp
  have nth_eq: "?m' a ! n = ?xs ! n"
    using n by (simp add: nth_append)
  have len: "n < length (?m' a)" using n by simp
  have ih: "fold (setTerminationMessagePolicy a) [0..<n] m = ?m'"
    using n by (intro Suc.IH) simp
  have "fold (setTerminationMessagePolicy a) [0..<Suc n] m =
        setTerminationMessagePolicy a n (fold (setTerminationMessagePolicy a) [0..<n] m)"
    by simp
  also have "\<dots> = setTerminationMessagePolicy a n ?m'"
    by (simp only: ih)
  also have "\<dots> = ?m'(a := (?m' a)[n := defaultContainer (?m' a ! n)])"
    using len by (rule setTerminationMessagePolicy_eq)
  also have "\<dots> = ?m'(a := (?m' a)[n := defaultContainer (?xs ! n)])"
    by (simp only: nth_eq)
  also have "\<dots> = m(a := map defaultContainer (take (Suc n) ?xs) @ drop (Suc n) ?xs)"
    using n
    by (simp add: take_Suc_conv_app_nth list_update_append Cons_nth_drop_Suc [symmetric])
  finally show ?case .
qed

lemma defaultContainer_idem: "defaultContainer (defaultContainer c) = defaultContainer c"
  by (simp add: defaultContainer_def)

lemma map_defaultContainer_idem:
  "map defaultContainer (map defaultContainer cs) = map defaultContainer cs"
  by (simp add: defaultContainer_idem)

text \<open>The store after the defaulting step, and the slice header of the copy.\<close>

lemma snd_injectDefaults:
  "snd (injectDefaults schedulerName item m) =
   m(Containers (Spec item) := map defaultContainer (m (Containers (Spec item))))"
  by (simp add: injectDefaults_def Let_def fold_setTerminationMessagePolicy)

lemma Containers_injectDefaults:
  "Containers (Spec (fst (injectDefaults schedulerName item m))) = Containers (Spec item)"
  by (simp add: injectDefaults_def Let_def)

lemma fst_injectDefaults:
  "fst (injectDefaults n item m) =
     \<lparr>ObjectMeta = \<lparr>Name = Name (ObjectMeta item),
         Namespace = (if Namespace (ObjectMeta item) = [] then ''default''
                      else Namespace (ObjectMeta item))\<rparr>,
      Spec = \<lparr>SchedulerName = (if SchedulerName (Spec item) = [] then n
                                else SchedulerName (Spec item)),
              DNSPolicy = (if DNSPolicy (Spec item) = [] then DNSClusterFirst
                           else DNSPolicy (Spec item)),
              RestartPolicy = (if RestartPolicy (Spec item) = [] then RestartPolicyAlways
                               else RestartPolicy (Spec item)),
              Containers = Containers (Spec item)\<rparr>\<rparr>"
  by (simp add: injectDefaults_def Let_def)


lemma defaultContainer_comp: "defaultContainer \<circ> defaultContainer = defaultContainer"
  by (simp add: fun_eq_iff defaultContainer_idem)

lemma fst_injectDefaults_idem:
  "fst (injectDefaults n (fst (injectDefaults n item m)) m') = fst (injectDefaults n item m)"
  by (simp add: fst_injectDefaults)

lemma injectDefaults_twice:
  "injectDefaults n (fst (injectDefaults n item m)) (snd (injectDefaults n item m)) =
     injectDefaults n item m"
proof -
  have "snd (injectDefaults n (fst (injectDefaults n item m)) (snd (injectDefaults n item m))) =
        snd (injectDefaults n item m)"
    by (simp add: snd_injectDefaults Containers_injectDefaults defaultContainer_comp)
  then show ?thesis
    by (simp add: prod_eq_iff fst_injectDefaults_idem)
qed


lemma processItems_Cons:
  "processItems E n (item # items) m =
     (case Convert_v1_Pod_To_core_Pod E (fst (injectDefaults n item m))
             (snd (injectDefaults n item m)) of
        Inl err \<Rightarrow> Inl (UnableToConvert err)
      | Inr internalPod \<Rightarrow>
          if ValidatePodCreate E internalPod \<noteq> []
          then Inl (InvalidPod (Join (map errStr (ValidatePodCreate E internalPod)) '', ''))
          else processItems E n items (snd (injectDefaults n item m)))"
  by (simp add: split_def Let_def split: sum.splits)


lemma processItems_memory:
  "processItems E n items m = Inr m' \<Longrightarrow>
   m' = (\<lambda>a. if a \<in> containerArrays items then map defaultContainer (m a) else m a)"
proof (induction items arbitrary: m)
  case Nil
  then show ?case by (simp add: containerArrays_def)
next
  case (Cons item items)
  let ?m1 = "snd (injectDefaults n item m)"
  from Cons.prems have "processItems E n items ?m1 = Inr m'"
    unfolding processItems_Cons by (simp split: sum.splits if_splits)
  then have "m' = (\<lambda>a. if a \<in> containerArrays items then map defaultContainer (?m1 a) else ?m1 a)"
    by (rule Cons.IH)
  then show ?case
    by (auto simp: snd_injectDefaults containerArrays_def defaultContainer_comp fun_eq_iff)
qed

subsection \<open>Defaulting is idempotent\<close>

text \<open>
  C7. Running the defaulting step of the loop body a second time, on the pod and the
  store the first run left, changes nothing. A field that is set keeps its value: each
  of the four scalar fields and each container's termination-message policy is the
  default where it was empty and the old value otherwise.
\<close>

theorem injectDefaults_idempotent:
  "injectDefaults n (fst (injectDefaults n item m)) (snd (injectDefaults n item m)) =
     injectDefaults n item m
   \<and> Namespace (ObjectMeta (fst (injectDefaults n item m))) =
       (if Namespace (ObjectMeta item) = [] then ''default'' else Namespace (ObjectMeta item))
   \<and> SchedulerName (Spec (fst (injectDefaults n item m))) =
       (if SchedulerName (Spec item) = [] then n else SchedulerName (Spec item))
   \<and> DNSPolicy (Spec (fst (injectDefaults n item m))) =
       (if DNSPolicy (Spec item) = [] then DNSClusterFirst else DNSPolicy (Spec item))
   \<and> RestartPolicy (Spec (fst (injectDefaults n item m))) =
       (if RestartPolicy (Spec item) = [] then RestartPolicyAlways
        else RestartPolicy (Spec item))
   \<and> map TerminationMessagePolicy (snd (injectDefaults n item m) (Containers (Spec item))) =
       map (\<lambda>c. if TerminationMessagePolicy c = []
                 then TerminationMessageFallbackToLogsOnError
                 else TerminationMessagePolicy c) (m (Containers (Spec item)))"
proof -
  have fields:
    "Namespace (ObjectMeta (fst (injectDefaults n item m))) =
       (if Namespace (ObjectMeta item) = [] then ''default'' else Namespace (ObjectMeta item))"
    "SchedulerName (Spec (fst (injectDefaults n item m))) =
       (if SchedulerName (Spec item) = [] then n else SchedulerName (Spec item))"
    "DNSPolicy (Spec (fst (injectDefaults n item m))) =
       (if DNSPolicy (Spec item) = [] then DNSClusterFirst else DNSPolicy (Spec item))"
    "RestartPolicy (Spec (fst (injectDefaults n item m))) =
       (if RestartPolicy (Spec item) = [] then RestartPolicyAlways
        else RestartPolicy (Spec item))"
    by (simp_all add: fst_injectDefaults)
  have conts:
    "map TerminationMessagePolicy (snd (injectDefaults n item m) (Containers (Spec item))) =
       map (\<lambda>c. if TerminationMessagePolicy c = []
                 then TerminationMessageFallbackToLogsOnError
                 else TerminationMessagePolicy c) (m (Containers (Spec item)))"
    by (simp add: snd_injectDefaults defaultContainer_def)
  from injectDefaults_twice [of n item m] fields conts show ?thesis
    by (simp only: simp_thms)
qed

subsection \<open>The shape of a call\<close>

lemma ParseAPISpec_cases:
  "ParseAPISpec E n s =
     (case fst (readPodList E (Options s)) of
        Inl err \<Rightarrow> ((Some err, s), snd (readPodList E (Options s)))
      | Inr l \<Rightarrow>
          (case processItems E n (Items l) (backing l) of
             Inl err \<Rightarrow> ((Some err, s), snd (readPodList E (Options s)))
           | Inr m \<Rightarrow> ((None, s\<lparr>Pod := Some (l\<lparr>backing := m\<rparr>)\<rparr>),
                        snd (readPodList E (Options s)))))"
  by (simp add: ParseAPISpec_def split: prod.splits sum.splits)

lemma readPodList_single:
  "PodSpecFile opts \<noteq> [] \<Longrightarrow>
   readPodList E opts =
     (case fst (downloadOrRead E (PodSpecFile opts)) of
        Inl err \<Rightarrow> (Inl err, snd (downloadOrRead E (PodSpecFile opts)))
      | Inr spec \<Rightarrow>
          (case Decode_Pod E spec of
             Inl err \<Rightarrow> (Inl (FailedToDecode err), snd (downloadOrRead E (PodSpecFile opts)))
           | Inr pm \<Rightarrow> (Inr \<lparr>Items = [fst pm], backing = snd pm\<rparr>,
                        snd (downloadOrRead E (PodSpecFile opts)))))"
  by (simp add: readPodList_def split: prod.splits sum.splits)

lemma readPodList_list:
  "PodSpecFile opts = [] \<Longrightarrow>
   readPodList E opts =
     (case fst (downloadOrRead E (PodListSpecFile opts)) of
        Inl err \<Rightarrow> (Inl err, snd (downloadOrRead E (PodListSpecFile opts)))
      | Inr spec \<Rightarrow>
          (case Decode_PodList E spec of
             Inl err \<Rightarrow> (Inl (DailedToDecode err), snd (downloadOrRead E (PodListSpecFile opts)))
           | Inr l \<Rightarrow> (Inr l, snd (downloadOrRead E (PodListSpecFile opts)))))"
  by (simp add: readPodList_def split: prod.splits sum.splits)

text \<open>Nothing but \<open>readPodList\<close>'s list branch looks at the list decoder.\<close>

lemma downloadOrRead_env_cong:
  "downloadOrRead (E\<lparr>Decode_PodList := d\<rparr>) u = downloadOrRead E u"
  by (simp add: downloadOrRead_def)

lemma processItems_env_cong:
  "processItems (E\<lparr>Decode_PodList := d\<rparr>) n items m = processItems E n items m"
  by (induction items arbitrary: m)
    (simp_all add: processItems_Cons split: sum.splits del: processItems.simps(2))

lemma readPodList_env_cong:
  "PodSpecFile opts \<noteq> [] \<Longrightarrow>
   readPodList (E\<lparr>Decode_PodList := d\<rparr>) opts = readPodList E opts"
  by (simp add: readPodList_single downloadOrRead_env_cong split: sum.splits)

subsection \<open>Runs on the concrete environment\<close>

lemmas demo_eval = ParseAPISpec_cases readPodList_def downloadOrRead_def demoEnv_def
  demoConfig_def demoOptions_def processItems_Cons fst_injectDefaults snd_injectDefaults
  mkPod_def demoMemory_def demoValidate_def errStr_def defaultContainer_def StatusOK_def Let_def

lemma demo_run_bad:
  "ParseAPISpec demoEnv n (demoConfig [] ''bad.yaml'') =
     ((Some (InvalidPod ''Required value: metadata.name''), demoConfig [] ''bad.yaml''),
      [FileOpen ''/work/bad.yaml''])"
  by (simp add: demo_eval del: processItems.simps(2))


lemma demo_run_directory:
  "ParseAPISpec demoEnv n (demoConfig [] []) =
     ((Some (DailedToDecode ''read /work: is a directory''), demoConfig [] []),
      [FileOpen ''/work''])"
  by (simp add: demo_eval del: processItems.simps(2))

lemma demo_run_http:
  "ParseAPISpec demoEnv n (demoConfig ''http://example.test/pod.yaml'' []) =
     ((Some (FailedToDecode ''http: read on closed response body''),
       demoConfig ''http://example.test/pod.yaml'' []),
      [HttpGet ''http://example.test/pod.yaml'', BodyClose ''http://example.test/pod.yaml''])"
  by (simp add: demo_eval del: processItems.simps(2))

lemma demo_run_pod:
  "ParseAPISpec demoEnv n (demoConfig ''pod.yaml'' l) =
     ((None,
       \<lparr>Pod = Some \<lparr>Items = [mkPod ''a'' 10],
                    backing = demoMemory(10 := [\<lparr>Image = ''busybox'',
                      TerminationMessagePolicy = TerminationMessageFallbackToLogsOnError\<rparr>])\<rparr>,
        Options = demoOptions ''pod.yaml'' l\<rparr>),
      [FileOpen ''/work/pod.yaml''])"
  by (simp add: demo_eval del: processItems.simps(2))

lemma demo_run_list:
  "ParseAPISpec demoEnv n (demoConfig [] ''list.yaml'') =
     ((None,
       \<lparr>Pod = Some \<lparr>Items = [mkPod ''a'' 10, mkPod ''b'' 11, mkPod ''c'' 12],
                    backing = demoMemory
                      (10 := [\<lparr>Image = ''busybox'',
                               TerminationMessagePolicy = TerminationMessageFallbackToLogsOnError\<rparr>],
                       11 := [\<lparr>Image = ''nginx'', TerminationMessagePolicy = ''File''\<rparr>],
                       12 := [\<lparr>Image = ''redis'',
                               TerminationMessagePolicy = TerminationMessageFallbackToLogsOnError\<rparr>,
                              \<lparr>Image = ''proxy'', TerminationMessagePolicy = ''File''\<rparr>])\<rparr>,
        Options = demoOptions [] ''list.yaml''\<rparr>),
      [FileOpen ''/work/list.yaml''])"
  by (simp add: demo_eval del: processItems.simps(2))

lemma locked_run:
  "ParseAPISpec lockedEnv n (demoConfig [] []) =
     ((Some (FailedToOpen ''permission denied''), demoConfig [] []), [FileOpen ''/work''])"
  by (simp add: lockedEnv_def demo_eval del: processItems.simps(2))

subsection \<open>All or nothing\<close>

text \<open>
  C3. Whenever \<open>ParseAPISpec\<close> returns an error, whatever stage it comes from
  (resolving the source, decoding, conversion or validation, at any item), the
  configuration after the call is the configuration before it: the \<open>Pod\<close> field keeps
  its old value and no partial list is stored.
\<close>

theorem ParseAPISpec_error_keeps_config:
  "fst (fst (ParseAPISpec E n s)) = Some e \<Longrightarrow> snd (fst (ParseAPISpec E n s)) = s"
  by (simp add: ParseAPISpec_cases split: sum.splits)

text \<open>
  On the document \<open>bad.yaml\<close> the second of three pods has no name: the call fails with
  that pod's violation and \<open>Pod\<close> stays \<open>nil\<close>.
\<close>

theorem ParseAPISpec_error_keeps_config_witness:
  "fst (fst (ParseAPISpec demoEnv ''cluster-capacity-scheduler'' (demoConfig [] ''bad.yaml''))) =
     Some (InvalidPod ''Required value: metadata.name'')
   \<and> snd (fst (ParseAPISpec demoEnv ''cluster-capacity-scheduler'' (demoConfig [] ''bad.yaml''))) =
     demoConfig [] ''bad.yaml''
   \<and> Pod (demoConfig [] ''bad.yaml'') = None"
proof -
  have h: "fst (fst (ParseAPISpec demoEnv ''cluster-capacity-scheduler''
             (demoConfig [] ''bad.yaml''))) = Some (InvalidPod ''Required value: metadata.name'')"
    by (simp add: demo_run_bad)
  from ParseAPISpec_error_keeps_config [OF h] h show ?thesis
    by (simp add: demoConfig_def)
qed

subsection \<open>Rendering of messages\<close>

declare digitsOf.simps [simp del]







subsection \<open>A status other than 200\<close>




subsection \<open>The single pod source comes first\<close>

text \<open>
  C4. When \<open>PodSpecFile\<close> is not empty, the only operations of the call are those of
  resolving \<open>PodSpecFile\<close>; the list decoder is never consulted (any other list decoder
  gives the same call); the value of \<open>PodListSpecFile\<close> changes neither the error nor
  the stored list; and a successful call stores the one decoded pod as a list of one item.
\<close>

theorem single_source_precedence:
  assumes "PodSpecFile (Options s) \<noteq> []"
  shows "snd (ParseAPISpec E n s) = snd (downloadOrRead E (PodSpecFile (Options s)))
    \<and> ParseAPISpec (E\<lparr>Decode_PodList := d\<rparr>) n s = ParseAPISpec E n s
    \<and> fst (fst (ParseAPISpec E n (s\<lparr>Options := (Options s)\<lparr>PodListSpecFile := l\<rparr>\<rparr>))) =
         fst (fst (ParseAPISpec E n s))
    \<and> Pod (snd (fst (ParseAPISpec E n (s\<lparr>Options := (Options s)\<lparr>PodListSpecFile := l\<rparr>\<rparr>)))) =
         Pod (snd (fst (ParseAPISpec E n s)))
    \<and> (fst (fst (ParseAPISpec E n s)) = None \<longrightarrow>
         (\<exists>spec pod m. fst (downloadOrRead E (PodSpecFile (Options s))) = Inr spec \<and>
            Decode_Pod E spec = Inr (pod, m) \<and>
            map_option Items (Pod (snd (fst (ParseAPISpec E n s)))) = Some [pod]))"
proof -
  have 1: "snd (ParseAPISpec E n s) = snd (downloadOrRead E (PodSpecFile (Options s)))"
    using assms by (simp add: ParseAPISpec_cases readPodList_single split: sum.splits)
  have 2: "ParseAPISpec (E\<lparr>Decode_PodList := d\<rparr>) n s = ParseAPISpec E n s"
    using assms
    by (simp add: ParseAPISpec_cases readPodList_env_cong processItems_env_cong
        split: sum.splits)
  have rd: "readPodList E ((Options s)\<lparr>PodListSpecFile := l\<rparr>) = readPodList E (Options s)"
    using assms by (simp add: readPodList_single split: sum.splits)
  have 3: "fst (fst (ParseAPISpec E n (s\<lparr>Options := (Options s)\<lparr>PodListSpecFile := l\<rparr>\<rparr>))) =
         fst (fst (ParseAPISpec E n s))"
    by (simp add: ParseAPISpec_cases rd split: sum.splits)
  have 4: "Pod (snd (fst (ParseAPISpec E n (s\<lparr>Options := (Options s)\<lparr>PodListSpecFile := l\<rparr>\<rparr>)))) =
         Pod (snd (fst (ParseAPISpec E n s)))"
    by (simp add: ParseAPISpec_cases rd split: sum.splits)
  have 5: "fst (fst (ParseAPISpec E n s)) = None \<longrightarrow>
         (\<exists>spec pod m. fst (downloadOrRead E (PodSpecFile (Options s))) = Inr spec \<and>
            Decode_Pod E spec = Inr (pod, m) \<and>
            map_option Items (Pod (snd (fst (ParseAPISpec E n s)))) = Some [pod])"
    using assms
    by (auto simp: ParseAPISpec_cases readPodList_single split: sum.splits)
  from 1 2 3 4 5 show ?thesis by (intro conjI)
qed

theorem single_source_precedence_witness:
  "snd (ParseAPISpec demoEnv ''cluster-capacity-scheduler'' (demoConfig ''pod.yaml'' ''list.yaml'')) =
     [FileOpen ''/work/pod.yaml'']
   \<and> fst (fst (ParseAPISpec demoEnv ''cluster-capacity-scheduler''
        (demoConfig ''pod.yaml'' ''list.yaml''))) = None
   \<and> map_option Items (Pod (snd (fst (ParseAPISpec demoEnv ''cluster-capacity-scheduler''
        (demoConfig ''pod.yaml'' ''list.yaml''))))) = Some [mkPod ''a'' 10]
   \<and> Pod (snd (fst (ParseAPISpec demoEnv ''cluster-capacity-scheduler''
        (demoConfig ''pod.yaml'' ''bad.yaml'')))) =
     Pod (snd (fst (ParseAPISpec demoEnv ''cluster-capacity-scheduler''
        (demoConfig ''pod.yaml'' ''list.yaml''))))"
proof -
  let ?s = "demoConfig ''pod.yaml'' ''list.yaml''"
  have h: "PodSpecFile (Options ?s) \<noteq> []"
    by (simp add: demoConfig_def demoOptions_def)
  have upd: "?s\<lparr>Options := (Options ?s)\<lparr>PodListSpecFile := ''bad.yaml''\<rparr>\<rparr> =
             demoConfig ''pod.yaml'' ''bad.yaml''"
    by (simp add: demoConfig_def demoOptions_def)
  have dl: "snd (downloadOrRead demoEnv (PodSpecFile (Options ?s))) = [FileOpen ''/work/pod.yaml'']"
    by (simp add: demoConfig_def demoOptions_def downloadOrRead_def demoEnv_def Let_def)
  from single_source_precedence [OF h, of demoEnv "''cluster-capacity-scheduler''"
      "Decode_PodList demoEnv" "''bad.yaml''"]
  show ?thesis
    by (simp add: upd dl demo_run_pod)
qed

subsection \<open>Order of the list\<close>

text \<open>
  C8. In list mode, when the source resolves to a stream that the list decoder turns
  into a document and the call succeeds, the items stored in \<open>s.Pod\<close> are the items of
  the decoded document, one for one and in the same order; so are their names.
\<close>

theorem list_order_preserved:
  assumes "PodSpecFile (Options s) = []"
    and "fst (downloadOrRead E (PodListSpecFile (Options s))) = Inr spec"
    and "Decode_PodList E spec = Inr l"
    and "fst (fst (ParseAPISpec E n s)) = None"
  shows "map_option Items (Pod (snd (fst (ParseAPISpec E n s)))) = Some (Items l)
    \<and> map_option (\<lambda>l'. map (\<lambda>p. Name (ObjectMeta p)) (Items l'))
          (Pod (snd (fst (ParseAPISpec E n s)))) =
        Some (map (\<lambda>p. Name (ObjectMeta p)) (Items l))"
proof -
  have rd: "fst (readPodList E (Options s)) = Inr l"
    using assms(1-3) by (simp add: readPodList_list)
  from assms(4) have "map_option Items (Pod (snd (fst (ParseAPISpec E n s)))) = Some (Items l)"
    by (simp add: ParseAPISpec_cases rd split: sum.splits)
  then show ?thesis by auto
qed

text \<open>The document \<open>list.yaml\<close> holds the pods a, b and c, stored in that order.\<close>

theorem list_order_preserved_witness:
  "map_option (\<lambda>l'. map (\<lambda>p. Name (ObjectMeta p)) (Items l'))
     (Pod (snd (fst (ParseAPISpec demoEnv ''cluster-capacity-scheduler''
        (demoConfig [] ''list.yaml''))))) = Some [''a'', ''b'', ''c'']"
proof -
  let ?s = "demoConfig [] ''list.yaml''"
  let ?spec = "\<lparr>content = ''list'', bodyClosed = False\<rparr>"
  let ?l = "\<lparr>Items = [mkPod ''a'' 10, mkPod ''b'' 11, mkPod ''c'' 12], backing = demoMemory\<rparr>"
  have a: "PodSpecFile (Options ?s) = []"
    by (simp add: demoConfig_def demoOptions_def)
  have b: "fst (downloadOrRead demoEnv (PodListSpecFile (Options ?s))) = Inr ?spec"
    by (simp add: demoConfig_def demoOptions_def downloadOrRead_def demoEnv_def Let_def)
  have c: "Decode_PodList demoEnv ?spec = Inr ?l"
    by (simp add: demoEnv_def)
  have d: "fst (fst (ParseAPISpec demoEnv ''cluster-capacity-scheduler'' ?s)) = None"
    by (simp add: demo_run_list)
  from list_order_preserved [OF a b c d] show ?thesis
    by (simp add: mkPod_def)
qed

subsection \<open>What the stored list keeps of the defaults\<close>

text \<open>
  C9. The loop variable is a copy of the item. After a successful call the items stored
  in \<open>s.Pod\<close> are the decoded items unchanged, so a namespace, scheduler name, DNS policy
  or restart policy that was empty is still empty there; the backing array of every
  item's container slice holds the containers with the termination-message policy
  defaulted. The second part says what one round of the loop converts and validates: the
  copy with the four scalar defaults, on the store with the container defaults.
\<close>

theorem only_container_defaults_stored:
  assumes "fst (readPodList E (Options s)) = Inr l"
    and "fst (fst (ParseAPISpec E n s)) = None"
  shows "Pod (snd (fst (ParseAPISpec E n s))) =
       Some \<lparr>Items = Items l,
             backing = (\<lambda>a. if a \<in> containerArrays (Items l)
                            then map defaultContainer (backing l a) else backing l a)\<rparr>
   \<and> processItems E n (item # items) m =
       (case Convert_v1_Pod_To_core_Pod E
          \<lparr>ObjectMeta = \<lparr>Name = Name (ObjectMeta item),
              Namespace = (if Namespace (ObjectMeta item) = [] then ''default''
                           else Namespace (ObjectMeta item))\<rparr>,
           Spec = \<lparr>SchedulerName = (if SchedulerName (Spec item) = [] then n
                                     else SchedulerName (Spec item)),
                   DNSPolicy = (if DNSPolicy (Spec item) = [] then DNSClusterFirst
                                else DNSPolicy (Spec item)),
                   RestartPolicy = (if RestartPolicy (Spec item) = [] then RestartPolicyAlways
                                    else RestartPolicy (Spec item)),
                   Containers = Containers (Spec item)\<rparr>\<rparr>
          (m(Containers (Spec item) := map defaultContainer (m (Containers (Spec item))))) of
          Inl err \<Rightarrow> Inl (UnableToConvert err)
        | Inr internalPod \<Rightarrow>
            if ValidatePodCreate E internalPod \<noteq> []
            then Inl (InvalidPod (Join (map errStr (ValidatePodCreate E internalPod)) '', ''))
            else processItems E n items
                   (m(Containers (Spec item) := map defaultContainer (m (Containers (Spec item))))))"
proof -
  from assms obtain m' where m: "processItems E n (Items l) (backing l) = Inr m'"
    and p: "Pod (snd (fst (ParseAPISpec E n s))) = Some (l\<lparr>backing := m'\<rparr>)"
    by (auto simp: ParseAPISpec_cases split: sum.splits)
  from processItems_memory [OF m] p have 1: "Pod (snd (fst (ParseAPISpec E n s))) =
       Some \<lparr>Items = Items l,
             backing = (\<lambda>a. if a \<in> containerArrays (Items l)
                            then map defaultContainer (backing l a) else backing l a)\<rparr>"
    by simp
  show ?thesis
    unfolding processItems_Cons fst_injectDefaults snd_injectDefaults
    using 1 by simp
qed

text \<open>
  The pod of \<open>pod.yaml\<close> has all five fields empty: the stored pod keeps the four
  scalar fields empty and its container has the default policy.
\<close>

theorem only_container_defaults_stored_witness:
  "map_option Items (Pod (snd (fst (ParseAPISpec demoEnv ''cluster-capacity-scheduler''
        (demoConfig ''pod.yaml'' []))))) =
     Some [\<lparr>ObjectMeta = \<lparr>Name = ''a'', Namespace = []\<rparr>,
            Spec = \<lparr>SchedulerName = [], DNSPolicy = [], RestartPolicy = [],
                    Containers = 10\<rparr>\<rparr>]
   \<and> map_option (\<lambda>l. backing l 10) (Pod (snd (fst (ParseAPISpec demoEnv
        ''cluster-capacity-scheduler'' (demoConfig ''pod.yaml'' []))))) =
     Some [\<lparr>Image = ''busybox'', TerminationMessagePolicy = ''FallbackToLogsOnError''\<rparr>]"
proof -
  let ?s = "demoConfig ''pod.yaml'' []"
  let ?l = "\<lparr>Items = [mkPod ''a'' 10], backing = demoMemory\<rparr>"
  have a: "fst (readPodList demoEnv (Options ?s)) = Inr ?l"
    by (simp add: demoConfig_def demoOptions_def readPodList_def downloadOrRead_def
        demoEnv_def Let_def)
  have b: "fst (fst (ParseAPISpec demoEnv ''cluster-capacity-scheduler'' ?s)) = None"
    by (simp add: demo_run_pod)
  from only_container_defaults_stored [OF a b] have "Pod (snd (fst (ParseAPISpec demoEnv
      ''cluster-capacity-scheduler'' ?s))) =
       Some \<lparr>Items = Items ?l,
             backing = (\<lambda>a. if a \<in> containerArrays (Items ?l)
                            then map defaultContainer (backing ?l a) else backing ?l a)\<rparr>"
    by (rule conjunct1)
  then show ?thesis
    by (simp add: containerArrays_def mkPod_def demoMemory_def defaultContainer_def
        TerminationMessageFallbackToLogsOnError_def)
qed

subsection \<open>The defaults a caller finds\<close>

text \<open>
  C1 does not hold of the code. For the pod of \<open>pod.yaml\<close>, with all five fields empty,
  and the scheduler name \<open>cluster-capacity-scheduler\<close>, the call succeeds and the pod
  stored in \<open>s.Pod\<close> has an empty namespace, scheduler name, DNS policy and restart
  policy; the defaults are on the loop's copy only, which the last part shows.
\<close>

theorem defaults_missing_from_stored_pod:
  "fst (fst (ParseAPISpec demoEnv ''cluster-capacity-scheduler'' (demoConfig ''pod.yaml'' []))) = None
   \<and> map_option (\<lambda>l. map (\<lambda>p. (Namespace (ObjectMeta p), SchedulerName (Spec p),
                                  DNSPolicy (Spec p), RestartPolicy (Spec p))) (Items l))
        (Pod (snd (fst (ParseAPISpec demoEnv ''cluster-capacity-scheduler''
           (demoConfig ''pod.yaml'' []))))) = Some [([], [], [], [])]
   \<and> fst (injectDefaults ''cluster-capacity-scheduler'' (mkPod ''a'' 10) demoMemory) =
       \<lparr>ObjectMeta = \<lparr>Name = ''a'', Namespace = ''default''\<rparr>,
        Spec = \<lparr>SchedulerName = ''cluster-capacity-scheduler'', DNSPolicy = ''ClusterFirst'',
                RestartPolicy = ''Always'', Containers = 10\<rparr>\<rparr>"
  by (simp add: demo_run_pod)
    (simp add: mkPod_def fst_injectDefaults DNSClusterFirst_def RestartPolicyAlways_def)

subsection \<open>Both sources empty\<close>

text \<open>
  C10, as stated, fails where the path that \<open>filepath.Abs\<close> makes of the empty string
  can be opened: it is the working directory, and opening a directory succeeds. The
  call then fails in the list decoder, with a message that does not begin with
  \<open>failed to open config file\<close>.
\<close>

theorem both_empty_opens_directory_counterexample:
  "PodSpecFile (Options (demoConfig [] [])) = []
   \<and> PodListSpecFile (Options (demoConfig [] [])) = []
   \<and> os_Open demoEnv (filepath_Abs demoEnv []) = Inr ''directory''
   \<and> fst (fst (ParseAPISpec demoEnv ''cluster-capacity-scheduler'' (demoConfig [] []))) =
       Some (DailedToDecode ''read /work: is a directory'')
   \<and> errorMessage (DailedToDecode ''read /work: is a directory'') =
       ''dailed to decode config file: read /work: is a directory''
   \<and> \<not> prefix ''failed to open config file''
         (errorMessage (DailedToDecode ''read /work: is a directory''))"
  by (simp add: demo_run_directory) (simp add: demoConfig_def demoOptions_def demoEnv_def)

text \<open>
  C10, amended. When \<open>PodSpecFile\<close> and \<open>PodListSpecFile\<close> are both empty, the call
  takes the list branch and treats the empty string as a file path: its only operation
  is opening the absolute path of the empty string. If that open fails, the call returns
  the error of line 173, whose message begins with \<open>failed to open config file\<close>, and
  the configuration is unchanged; if it succeeds, the opened stream goes to the list
  decoder. Whenever the call returns an error, \<open>Pod\<close> keeps its value.
\<close>

theorem both_empty_takes_list_branch:
  assumes "PodSpecFile (Options s) = []" and "PodListSpecFile (Options s) = []"
  shows "snd (ParseAPISpec E n s) = [FileOpen (filepath_Abs E [])]
    \<and> (\<forall>e. os_Open E (filepath_Abs E []) = Inl e \<longrightarrow>
          fst (ParseAPISpec E n s) = (Some (FailedToOpen e), s) \<and>
          prefix ''failed to open config file'' (errorMessage (FailedToOpen e)))
    \<and> (\<forall>bytes. os_Open E (filepath_Abs E []) = Inr bytes \<longrightarrow>
          fst (readPodList E (Options s)) =
            (case Decode_PodList E \<lparr>content = bytes, bodyClosed = False\<rparr> of
               Inl err \<Rightarrow> Inl (DailedToDecode err) | Inr l \<Rightarrow> Inr l))
    \<and> (\<forall>e. fst (fst (ParseAPISpec E n s)) = Some e \<longrightarrow>
          Pod (snd (fst (ParseAPISpec E n s))) = Pod s)"
proof -
  have dl: "downloadOrRead E [] =
      (case os_Open E (filepath_Abs E []) of
         Inl err \<Rightarrow> (Inl (FailedToOpen err), [FileOpen (filepath_Abs E [])])
       | Inr bytes \<Rightarrow> (Inr \<lparr>content = bytes, bodyClosed = False\<rparr>,
                        [FileOpen (filepath_Abs E [])]))"
    by (simp add: downloadOrRead_def Let_def)
  have 1: "snd (ParseAPISpec E n s) = [FileOpen (filepath_Abs E [])]"
    using assms by (simp add: ParseAPISpec_cases readPodList_list dl split: sum.splits)
  have 2: "\<forall>e. os_Open E (filepath_Abs E []) = Inl e \<longrightarrow>
          fst (ParseAPISpec E n s) = (Some (FailedToOpen e), s) \<and>
          prefix ''failed to open config file'' (errorMessage (FailedToOpen e))"
    using assms by (simp add: ParseAPISpec_cases readPodList_list dl)
  have 3: "\<forall>bytes. os_Open E (filepath_Abs E []) = Inr bytes \<longrightarrow>
          fst (readPodList E (Options s)) =
            (case Decode_PodList E \<lparr>content = bytes, bodyClosed = False\<rparr> of
               Inl err \<Rightarrow> Inl (DailedToDecode err) | Inr l \<Rightarrow> Inr l)"
    using assms by (simp add: readPodList_list dl split: sum.splits)
  have 4: "\<forall>e. fst (fst (ParseAPISpec E n s)) = Some e \<longrightarrow>
          Pod (snd (fst (ParseAPISpec E n s))) = Pod s"
    by (simp add: ParseAPISpec_cases split: sum.splits)
  from 1 2 3 4 show ?thesis by (intro conjI)
qed

theorem both_empty_takes_list_branch_witness:
  "ParseAPISpec lockedEnv ''cluster-capacity-scheduler'' (demoConfig [] []) =
     ((Some (FailedToOpen ''permission denied''), demoConfig [] []), [FileOpen ''/work''])
   \<and> errorMessage (FailedToOpen ''permission denied'') =
       ''failed to open config file: permission denied''
   \<and> Pod (demoConfig [] []) = None"
proof -
  let ?s = "demoConfig [] []"
  have a: "PodSpecFile (Options ?s) = []" and b: "PodListSpecFile (Options ?s) = []"
    by (simp_all add: demoConfig_def demoOptions_def)
  have o: "os_Open lockedEnv (filepath_Abs lockedEnv []) = Inl ''permission denied''"
    and f: "filepath_Abs lockedEnv [] = ''/work''"
    by (simp_all add: lockedEnv_def demoEnv_def)
  note t = both_empty_takes_list_branch [OF a b, of lockedEnv "''cluster-capacity-scheduler''"]
  from t have 1: "snd (ParseAPISpec lockedEnv ''cluster-capacity-scheduler'' ?s) =
      [FileOpen ''/work'']"
    by (simp add: f)
  from t o have 2: "fst (ParseAPISpec lockedEnv ''cluster-capacity-scheduler'' ?s) =
      (Some (FailedToOpen ''permission denied''), ?s)"
    by blast
  from 1 2 show ?thesis
    by (simp add: prod_eq_iff demoConfig_def)
qed

subsection \<open>Which violations the error reports\<close>




subsection \<open>The response body and its close\<close>

text \<open>
  On a fetch answered with status 200, the reader that \<open>downloadOrRead\<close> returns is
  the response body after its close: the deferred close runs when \<open>downloadOrRead\<close>
  returns, before any decoder reads.
\<close>

lemma downloadOrRead_returns_closed_body:
  "prefix ''http://'' u \<or> prefix ''https://'' u \<Longrightarrow>
   http_Get E u = Inr r \<Longrightarrow> StatusCode r = StatusOK \<Longrightarrow>
   downloadOrRead E u =
     (Inr \<lparr>content = Body r, bodyClosed = True\<rparr>, [HttpGet u, BodyClose u])"
  by (simp add: downloadOrRead_def)

text \<open>
  C5 does not hold of the code. For the URL \<open>http://example.test/pod.yaml\<close>, answered
  with status 200 and a body that decodes to a pod when read from an open stream, the
  decoder is handed the closed body, and the call fails with the decoder's read error.
\<close>

theorem body_closed_before_decoding:
  "downloadOrRead demoEnv ''http://example.test/pod.yaml'' =
     (Inr \<lparr>content = ''pod'', bodyClosed = True\<rparr>,
      [HttpGet ''http://example.test/pod.yaml'', BodyClose ''http://example.test/pod.yaml''])
   \<and> Decode_Pod demoEnv \<lparr>content = ''pod'', bodyClosed = False\<rparr> = Inr (mkPod ''a'' 10, demoMemory)
   \<and> fst (fst (ParseAPISpec demoEnv ''cluster-capacity-scheduler''
        (demoConfig ''http://example.test/pod.yaml'' []))) =
     Some (FailedToDecode ''http: read on closed response body'')"
  by (simp add: demo_run_http) (simp add: downloadOrRead_def demoEnv_def StatusOK_def)

end
